theory Spec2Isabelle
  imports Complex_Main "HOL-Library.Sublist"
begin

section \<open>Python strings and number formatting\<close>

text \<open>
  Strings are lists of 8-bit characters. The helpers below are the \<open>str\<close> methods
  that \<open>GenerateTechFile.py\<close> calls, on that character range.
\<close>

abbreviation NL :: string where
  "NL \<equiv> [CHR 0x0A]"

abbreviation BSL :: string where
  "BSL \<equiv> [CHR 0x5C]"

text \<open>\<open>str.isspace\<close> on one character (the code points below 256 that Python counts as
  whitespace).\<close>

definition is_space :: "char \<Rightarrow> bool" where
  "is_space c = (c \<in> set [CHR 0x09, CHR 0x0A, CHR 0x0B, CHR 0x0C, CHR 0x0D,
                           CHR 0x1C, CHR 0x1D, CHR 0x1E, CHR 0x1F, CHR 0x20,
                           CHR 0x85, CHR 0xA0])"

definition rstrip :: "string \<Rightarrow> string" where
  "rstrip s = rev (dropWhile is_space (rev s))"

definition strip :: "string \<Rightarrow> string" where
  "strip s = rstrip (dropWhile is_space s)"

text \<open>\<open>s.split()\<close>: the maximal runs of non-whitespace characters; the first argument
  is the word being read.\<close>

fun split_acc :: "string \<Rightarrow> string \<Rightarrow> string list" where
  "split_acc w [] = (if w = [] then [] else [w])"
| "split_acc w (c # cs) =
     (if is_space c then (if w = [] then split_acc [] cs else w # split_acc [] cs)
      else split_acc (w @ [c]) cs)"

definition split_ws :: "string \<Rightarrow> string list" where
  "split_ws s = split_acc [] s"

text \<open>\<open>sep.join(xs)\<close> on strings.\<close>

fun join :: "string \<Rightarrow> string list \<Rightarrow> string" where
  "join sep [] = []"
| "join sep [x] = x"
| "join sep (x # y # ys) = x @ sep @ join sep (y # ys)"

text \<open>\<open>s.replace(a, b)\<close> for one-character \<open>a\<close> and \<open>b\<close>, the only use in the source.\<close>

definition replace_chr :: "char \<Rightarrow> char \<Rightarrow> string \<Rightarrow> string" where
  "replace_chr a b s = map (\<lambda>c. if c = a then b else c) s"

text \<open>\<open>s.find(t)\<close>: the lowest index where \<open>t\<close> occurs in \<open>s\<close>, or \<open>-1\<close>.\<close>

fun find_from :: "nat \<Rightarrow> string \<Rightarrow> string \<Rightarrow> int" where
  "find_from i t [] = (if t = [] then int i else - 1)"
| "find_from i t (c # cs) = (if prefix t (c # cs) then int i else find_from (Suc i) t cs)"

definition find_str :: "string \<Rightarrow> string \<Rightarrow> int" where
  "find_str s t = find_from 0 t s"

text \<open>\<open>s.lower()\<close>; on 8-bit characters only the ASCII capitals map to ASCII letters,
  which is all that the comparison with \<open>'0'\<close> and \<open>'false'\<close> observes.\<close>

definition lower_chr :: "char \<Rightarrow> char" where
  "lower_chr c = (if 65 \<le> (of_char c :: nat) \<and> (of_char c :: nat) \<le> 90
                  then char_of ((of_char c :: nat) + 32) else c)"

definition lower :: "string \<Rightarrow> string" where
  "lower s = map lower_chr s"

text \<open>Decimal digits of a natural number and of an integer (\<open>str\<close> on an \<open>int\<close>).\<close>

definition digit_chr :: "nat \<Rightarrow> char" where
  "digit_chr d = ''0123456789'' ! (d mod 10)"

function str_nat :: "nat \<Rightarrow> string" where
  "str_nat n = (if n < 10 then [digit_chr n] else str_nat (n div 10) @ [digit_chr (n mod 10)])"
  by pat_completeness auto
termination
  by (relation "measure id") auto

declare str_nat.simps [simp del]

definition str_int :: "int \<Rightarrow> string" where
  "str_int i = (if i < 0 then ''-'' @ str_nat (nat (- i)) else str_nat (nat i))"

text \<open>
  A float is modelled by the rational number that is its exact value (finite floats;
  negative zero is not distinguished from zero). \<open>fmt4\<close> is the conversion \<open>%.4f\<close>:
  the value rounded to four decimals, ties to even, with a minus sign for a negative
  value and no sign otherwise.
\<close>

definition round_half_even :: "rat \<Rightarrow> int" where
  "round_half_even y =
     (let f = \<lfloor>y\<rfloor>; r = y - of_int f
      in if r < 1 / 2 then f else if 1 / 2 < r then f + 1 else if even f then f else f + 1)"

definition fmt4 :: "rat \<Rightarrow> string" where
  "fmt4 v =
     (let n = nat (round_half_even (\<bar>v\<bar> * 10000))
      in (if v < 0 then ''-'' else '''') @ str_nat (n div 10000) @ ''.'' @
         [digit_chr (n div 1000), digit_chr (n div 100), digit_chr (n div 10), digit_chr n])"

section \<open>The scene as the exporter reads it\<close>

text \<open>
  Uncaught Python exceptions are values: \<open>IndexError\<close> for \<open>xs[0]\<close> on an empty list,
  \<open>TypeError\<close> for \<open>str.join\<close> on a sequence with a non-string item.
\<close>

datatype exn = IndexError | TypeError

text \<open>The value of a custom property: a string, or something else (an integer).\<close>

datatype pyval = PStr string | PInt int

definition truthy :: "pyval \<Rightarrow> bool" where
  "truthy v = (case v of PStr s \<Rightarrow> s \<noteq> [] | PInt i \<Rightarrow> i \<noteq> 0)"

definition py_str :: "pyval \<Rightarrow> string" where
  "py_str v = (case v of PStr s \<Rightarrow> s | PInt i \<Rightarrow> str_int i)"

record vector =
  vx :: rat
  vy :: rat
  vz :: rat

record bezier_point =
  handle_left :: vector
  co :: vector
  handle_right :: vector

record spline_point =
  sp_co :: vector

record spline =
  stype :: string
  bezier_points :: "bezier_point list"
  SplinePoint :: "spline_point list"
  use_cyclic_u :: bool

record material =
  mat_name :: string
  mat_properties :: "(string \<times> pyval) list"
  rgbCol :: "rat \<times> rat \<times> rat"
  alpha :: rat

text \<open>
  A material slot and the dictionary \<open>used_materials\<close> hold a reference to a material
  of the host, not a copy: the attributes are read through the reference when they are
  needed (see \<open>material_at\<close> below).
\<close>

type_synonym mref = nat

text \<open>
  An object of the selection. \<open>oid\<close> stands for the identity of the host object (the
  key of the empties dictionary), \<open>parent\<close> for the identity of \<open>obj.parent\<close>;
  \<open>materials\<close> is \<open>None\<close> when reading \<open>obj.data.materials\<close> raises, and
  holds the references in the slots (\<open>None\<close> for an empty slot) otherwise;
  \<open>game_properties\<close> gives, per name, the \<open>type\<close> and \<open>data\<close> of what
  \<open>obj.getProperty\<close> returns; \<open>matrix_world\<close> and \<open>matrix\<close> hold the
  translation of those matrices, the only part that is read.
\<close>

record scene_object =
  oid :: nat
  oname :: string
  otype :: string
  location :: vector
  rot_z :: rat
  scale :: vector
  splines :: "spline list"
  materials :: "mref option list option"
  properties :: "(string \<times> pyval) list"
  game_properties :: "(string \<times> string \<times> pyval) list"
  parent :: "nat option"
  matrix_world :: vector
  matrix :: vector

record export_context =
  selected_objects :: "scene_object list"
  scene_properties :: "(string \<times> pyval) list"

record flags =
  USE_PLOTPATH :: bool
  WRAP_LINES :: bool
  DRAW_CURVE :: bool
  FILL_CLOSED_CURVE :: bool
  TRANSFORM_CURVE :: bool
  EXPORT_MATERIALS :: bool
  EMPTIES :: bool
  ONLY_PROPERTIES :: bool
  STANDALONE :: bool
  CODE_ONLY :: bool
  CLIPBOARD_OUTPUT :: bool

text \<open>
  What the exporter takes from outside the repository: \<open>float_str\<close> is Python's
  \<open>str\<close> on a float, \<open>wrap\<close> is \<open>textwrap.wrap(ps, 80, subsequent_indent="  ",
  break_long_words=False)\<close>, \<open>rel_inv empty obj\<close> is the host's matrix expression
  \<open>(empty.mat * (obj.mat.copy()).invert()).translationPart\<close>, \<open>file_ok\<close> tells
  whether opening and writing the file at a path succeeds, \<open>clipboard_ok\<close> whether
  \<open>clipboard.copy\<close> does, \<open>material_at r\<close> is the material that the reference
  \<open>r\<close> denotes, with the attributes it has in the host when the export reads them (a
  material renamed between two exports is another \<open>material_at\<close> for the second).
  Diagnostic \<open>print\<close> calls are not modelled.
\<close>

record host =
  float_str :: "rat \<Rightarrow> string"
  wrap :: "string \<Rightarrow> string list"
  rel_inv :: "scene_object \<Rightarrow> scene_object \<Rightarrow> vector"
  file_ok :: "string \<Rightarrow> bool"
  clipboard_ok :: bool
  material_at :: "mref \<Rightarrow> material"

text \<open>The dictionary \<open>used_materials\<close>, from a name to the reference of a material,
  in insertion order: assigning to a key that is present replaces the value in place, a
  new key goes to the end.\<close>

type_synonym used_materials = "(string \<times> mref) list"

fun dict_set :: "'k \<Rightarrow> 'v \<Rightarrow> ('k \<times> 'v) list \<Rightarrow> ('k \<times> 'v) list" where
  "dict_set k v [] = [(k, v)]"
| "dict_set k v (p # ps) = (if fst p = k then (k, v) # ps else p # dict_set k v ps)"

section \<open>Utility functions\<close>

text \<open>\<open>nsplit(seq, 2)\<close>: consecutive pairs, an odd last element is dropped.\<close>

fun nsplit :: "'a list \<Rightarrow> ('a \<times> 'a) list" where
  "nsplit (a # b # r) = (a, b) # nsplit r"
| "nsplit _ = []"

definition mreplace :: "string \<Rightarrow> string \<Rightarrow> string \<Rightarrow> string" where
  "mreplace s chararray newchararray =
     fold (\<lambda>(a, b) t. replace_chr a b t) (zip chararray newchararray) s"

definition tikzify :: "string \<Rightarrow> string" where
  "tikzify s = (if strip s \<noteq> [] then mreplace s (BSL @ '',:.'') ''-+_*'' else [])"

definition cmp :: "rat \<Rightarrow> rat \<Rightarrow> int" where
  "cmp a b = (if b < a then 1 else 0) - (if a < b then 1 else 0)"

definition get_property :: "scene_object \<Rightarrow> string \<Rightarrow> pyval list" where
  "get_property obj nm =
     (case map_of (properties obj) nm of None \<Rightarrow> [] | Some v \<Rightarrow> [v]) @
     (case map_of (game_properties obj) nm of
        None \<Rightarrow> []
      | Some (t, PStr d) \<Rightarrow> (if t = ''STRING'' \<and> strip d \<noteq> [] then [PStr d] else [])
      | Some (t, PInt i) \<Rightarrow> [])"

definition get_material ::
  "host \<Rightarrow> mref option \<Rightarrow> used_materials \<Rightarrow> string \<times> used_materials" where
  "get_material h material um =
     (case material of
        None \<Rightarrow> ([], um)
      | Some r \<Rightarrow> (tikzify (mat_name (material_at h r)),
                  dict_set (tikzify (mat_name (material_at h r))) r um))"

text \<open>\<open>sep.join(items)\<close> on a list that may hold non-strings.\<close>

fun str_items :: "pyval list \<Rightarrow> exn + string list" where
  "str_items [] = Inr []"
| "str_items (PStr s # vs) = (case str_items vs of Inl e \<Rightarrow> Inl e | Inr ss \<Rightarrow> Inr (s # ss))"
| "str_items (PInt i # vs) = Inl TypeError"

definition py_join :: "string \<Rightarrow> pyval list \<Rightarrow> exn + string" where
  "py_join sep vs = (case str_items vs of Inl e \<Rightarrow> Inl e | Inr ss \<Rightarrow> Inr (join sep ss))"

section \<open>Material definitions\<close>

text \<open>The two lines that \<open>write_materials\<close> writes for a material: the colour
  definition and the style binding.\<close>

definition color_definition :: "host \<Rightarrow> string \<Rightarrow> rat \<times> rat \<times> rat \<Rightarrow> string" where
  "color_definition h nm rgb =
     BSL @ ''definecolor{'' @ nm @ ''_col}{rgb}{'' @
     float_str h (fst rgb) @ '','' @ float_str h (fst (snd rgb)) @ '','' @
     float_str h (snd (snd rgb)) @ ''}'' @ NL"

definition style_binding :: "string \<Rightarrow> string \<Rightarrow> string" where
  "style_binding nm optstr = BSL @ ''tikzstyle{'' @ nm @ ''}= ['' @ optstr @ '']'' @ NL"

text \<open>The loop body of \<open>write_materials\<close> for one material: \<open>proponly\<close>,
  \<open>matopts\<close>, the test \<open>not (proponly and matopts)\<close>, the list \<open>options\<close>, and the
  text added to \<open>c\<close>.\<close>

definition material_proponly :: "bool \<Rightarrow> material \<Rightarrow> bool" where
  "material_proponly only_props m =
     (case map_of (mat_properties m) ''onlyproperties'' of
        None \<Rightarrow> only_props
      | Some (PStr p) \<Rightarrow> p \<noteq> [] \<and> lower p \<notin> {''0'', ''false''}
      | Some (PInt i) \<Rightarrow> i \<noteq> 0)"

definition material_matopts :: "material \<Rightarrow> pyval" where
  "material_matopts m =
     (case map_of (mat_properties m) ''style'' of None \<Rightarrow> PStr [] | Some v \<Rightarrow> v)"

definition material_derived :: "bool \<Rightarrow> material \<Rightarrow> bool" where
  "material_derived only_props m =
     (\<not> (material_proponly only_props m \<and> truthy (material_matopts m)))"

definition material_options :: "host \<Rightarrow> bool \<Rightarrow> material \<Rightarrow> pyval list" where
  "material_options h only_props m =
     (if material_derived only_props m
      then [PStr (tikzify (mat_name m) @ ''_col'')] @
           (if alpha m < 1 then [PStr (''opacity='' @ float_str h (alpha m))] else [])
      else []) @
     (if truthy (material_matopts m) then [material_matopts m] else [])"

definition material_entry :: "host \<Rightarrow> bool \<Rightarrow> material \<Rightarrow> exn + string" where
  "material_entry h only_props m =
     (case py_join '','' (material_options h only_props m) of
        Inl e \<Rightarrow> Inl e
      | Inr optstr \<Rightarrow>
          Inr ((if material_derived only_props m
                then color_definition h (tikzify (mat_name m)) (rgbCol m) else []) @
               style_binding (tikzify (mat_name m)) optstr))"

fun materials_loop :: "host \<Rightarrow> bool \<Rightarrow> string \<Rightarrow> material list \<Rightarrow> exn + string" where
  "materials_loop h only_props c [] = Inr c"
| "materials_loop h only_props c (m # ms) =
     (case material_entry h only_props m of
        Inl e \<Rightarrow> Inl e
      | Inr t \<Rightarrow> materials_loop h only_props (c @ t) ms)"

text \<open>\<open>write_materials\<close>: the loop over \<open>used_materials.values()\<close>, each material read
  through its reference.\<close>

definition write_materials :: "host \<Rightarrow> used_materials \<Rightarrow> bool \<Rightarrow> exn + string" where
  "write_materials h um only_props =
     materials_loop h only_props (''% Materials section '' @ NL)
       (map (\<lambda>p. material_at h (snd p)) um)"

section \<open>Serializing one object\<close>

definition knot_str :: "vector \<Rightarrow> string" where
  "knot_str k = ''(+'' @ fmt4 (vx k) @ '',+'' @ fmt4 (vy k) @ '')''"

definition controls_str :: "vector \<times> vector \<Rightarrow> string" where
  "controls_str hh =
     ''controls (+'' @ fmt4 (vx (fst hh)) @ '',+'' @ fmt4 (vy (fst hh)) @ '') and (+'' @
     fmt4 (vx (snd hh)) @ '',+'' @ fmt4 (vy (snd hh)) @ '')''"

text \<open>The handle list and the knot list of a Bezier spline as built by the first loop,
  and as adjusted for a closed or an open curve (for a spline that has a point).\<close>

definition all_handles :: "spline \<Rightarrow> vector list" where
  "all_handles sp = concat (map (\<lambda>p. [handle_left p, handle_right p]) (bezier_points sp))"

definition all_knots :: "spline \<Rightarrow> string list" where
  "all_knots sp = map (\<lambda>p. knot_str (co p)) (bezier_points sp)"

definition used_handles :: "spline \<Rightarrow> vector list" where
  "used_handles sp =
     (if use_cyclic_u sp then tl (all_handles sp) @ [hd (all_handles sp)]
      else butlast (tl (all_handles sp)))"

definition used_knots :: "spline \<Rightarrow> string list" where
  "used_knots sp =
     (if use_cyclic_u sp then all_knots sp @ [hd (all_knots sp)] else all_knots sp)"

text \<open>The text a Bezier spline adds to \<open>ps\<close>. Without points, \<open>handles[0]\<close> (closed) or
  \<open>knots[0]\<close> (open) raises.\<close>

definition bezier_text :: "spline \<Rightarrow> exn + string" where
  "bezier_text sp =
     (if bezier_points sp = [] then Inl IndexError
      else Inr (hd (used_knots sp) @ NL @
                concat (map (\<lambda>(h, k). ''  .. '' @ h @ '' .. '' @ k @ NL)
                            (zip (map controls_str (nsplit (used_handles sp)))
                                 (tl (used_knots sp)))) @
                (if use_cyclic_u sp then ''  -- cycle'' @ NL else [])))"

text \<open>The coordinate of a polyline point: the f-string
  \<open>f"(+{point.co.x}.4f,+{point.co.y}.4f)"\<close>.\<close>

definition poly_coord :: "host \<Rightarrow> spline_point \<Rightarrow> string" where
  "poly_coord h p =
     ''(+'' @ float_str h (vx (sp_co p)) @ ''.4f,+'' @ float_str h (vy (sp_co p)) @ ''.4f)''"

text \<open>The pretty-printing loop over \<open>coords[1:]\<close>; \<open>i\<close> is the counter before the step.\<close>

fun wrap_segments :: "nat \<Rightarrow> string list \<Rightarrow> string" where
  "wrap_segments i [] = []"
| "wrap_segments i (c # cs) =
     (if (i + 1) mod 3 \<noteq> 0 then ''-- '' @ c else ''  -- '' @ c @ NL @ ''  '') @
     wrap_segments (i + 1) cs"

definition poly_step :: "host \<Rightarrow> flags \<Rightarrow> scene_object \<Rightarrow> string \<Rightarrow> spline \<Rightarrow> exn + string" where
  "poly_step h f obj ps sp =
     (let coords = map (poly_coord h) (SplinePoint sp)
      in if USE_PLOTPATH f then
           (let plotopts = get_property obj ''plotstyle''
            in case (if plotopts \<noteq> []
                     then (case py_join '','' plotopts of
                             Inl e \<Rightarrow> Inl e | Inr j \<Rightarrow> Inr (''['' @ j @ '']''))
                     else Inr []) of
                 Inl e \<Rightarrow> Inl e
               | Inr poptstr \<Rightarrow>
                   (let ps1 = ps @ '' plot'' @ poptstr @ '' coordinates {'' @
                              join '' '' coords @ ''}'';
                        ps2 = (if use_cyclic_u sp then ps1 @ '' -- cycle'' else ps1)
                    in Inr (if WRAP_LINES f then join NL (wrap h ps2) else ps2)))
         else
           (case (if use_cyclic_u sp
                  then (case coords of
                          [] \<Rightarrow> Inl IndexError
                        | c # cs \<Rightarrow> Inr (coords @ [c, ''cycle'' @ NL @ ''  '']))
                  else Inr coords) of
              Inl e \<Rightarrow> Inl e
            | Inr coords' \<Rightarrow>
                (if WRAP_LINES f
                 then (case coords' of
                         [] \<Rightarrow> Inl IndexError
                       | c # cs \<Rightarrow> Inr (ps @ c @ NL @ ''  '' @ wrap_segments 0 cs))
                 else Inr (ps @ join '' -- '' coords'))))"

text \<open>One pass of the loop over \<open>curvedata.splines\<close>, from \<open>ps\<close> to the new \<open>ps\<close>.\<close>

definition spline_step :: "host \<Rightarrow> flags \<Rightarrow> scene_object \<Rightarrow> string \<Rightarrow> spline \<Rightarrow> exn + string" where
  "spline_step h f obj ps sp =
     (if stype sp = ''BEZIER''
      then (case bezier_text sp of Inl e \<Rightarrow> Inl e | Inr t \<Rightarrow> Inr (ps @ t))
      else if stype sp = ''POLY'' then poly_step h f obj ps sp
      else Inr ps)"

fun splines_loop :: "host \<Rightarrow> flags \<Rightarrow> scene_object \<Rightarrow> string \<Rightarrow> spline list \<Rightarrow> exn + string" where
  "splines_loop h f obj ps [] = Inr ps"
| "splines_loop h f obj ps (sp # sps) =
     (case spline_step h f obj ps sp of
        Inl e \<Rightarrow> Inl e
      | Inr ps' \<Rightarrow> splines_loop h f obj ps' sps)"

definition transform_opts :: "scene_object \<Rightarrow> string list" where
  "transform_opts obj =
     (if vx (location obj) \<noteq> 0 then [''xshift='' @ fmt4 (vx (location obj)) @ ''cm''] else []) @
     (if vy (location obj) \<noteq> 0 then [''yshift='' @ fmt4 (vy (location obj)) @ ''cm''] else []) @
     (if rot_z obj \<noteq> 0 then [''rotate='' @ fmt4 (rot_z obj)] else []) @
     (if vx (scale obj) \<noteq> 1 then [''xscale='' @ fmt4 (vx (scale obj))] else []) @
     (if vy (scale obj) \<noteq> 1 then [''yscale='' @ fmt4 (vy (scale obj))] else [])"

text \<open>The material part of the options (\<open>if EXPORT_MATERIALS: ...\<close>): the name of the
  first material that is not empty, which \<open>get_material\<close> registers.\<close>

definition material_ref ::
  "host \<Rightarrow> flags \<Rightarrow> scene_object \<Rightarrow> used_materials \<Rightarrow> pyval list \<times> used_materials" where
  "material_ref h f obj um =
     (if EXPORT_MATERIALS f
      then (case find (\<lambda>m. m \<noteq> None)
                      (case materials obj of None \<Rightarrow> [] | Some ms \<Rightarrow> ms) of
              None \<Rightarrow> ([], um)
            | Some mat \<Rightarrow> ([PStr (fst (get_material h mat um))], snd (get_material h mat um)))
      else ([], um))"

text \<open>The options list of a path statement (from \<open>options = []\<close> to
  \<open>options.extend(extraopts)\<close>), with the material table as left by \<open>get_material\<close>.\<close>

definition compose_options ::
  "host \<Rightarrow> flags \<Rightarrow> scene_object \<Rightarrow> string \<Rightarrow> used_materials
     \<Rightarrow> pyval list \<times> used_materials" where
  "compose_options h f obj ps um =
     ((if DRAW_CURVE f then [PStr ''draw''] else []) @
      (if FILL_CLOSED_CURVE f \<and> 0 < find_str ps ''cycle'' then [PStr ''fill''] else []) @
      (if TRANSFORM_CURVE f then map PStr (transform_opts obj) else []) @
      fst (material_ref h f obj um) @
      get_property obj ''style'',
      snd (material_ref h f obj um))"

definition vec_sub :: "vector \<Rightarrow> vector \<Rightarrow> vector" where
  "vec_sub a b = \<lparr>vx = vx a - vx b, vy = vy a - vy b, vz = vz a - vz b\<rparr>"

text \<open>The named coordinates of the empties whose parent is the object.\<close>

definition empties_str ::
  "host \<Rightarrow> flags \<Rightarrow> scene_object \<Rightarrow> (nat \<times> scene_object list) list \<Rightarrow> string" where
  "empties_str h f obj empties =
     (if EMPTIES f
      then (case map_of empties (oid obj) of
              None \<Rightarrow> []
            | Some es \<Rightarrow>
                concat (map (\<lambda>empty.
                  (let e = (if TRANSFORM_CURVE f then rel_inv h empty obj
                            else vec_sub (matrix empty) (matrix obj))
                   in ''  (+'' @ fmt4 (vx e) @ '',+'' @ fmt4 (vy e) @ '') coordinate ('' @
                      oname empty @ '')'' @ NL)) es))
      else [])"

definition write_object ::
  "host \<Rightarrow> scene_object \<Rightarrow> (nat \<times> scene_object list) list \<Rightarrow> flags \<Rightarrow> used_materials
     \<Rightarrow> exn + string \<times> used_materials" where
  "write_object h obj empties f um =
     (if otype obj \<notin> {''CURVE'', ''Empty''} then Inr ([], um)
      else if otype obj = ''CURVE'' then
        (let s = ''% '' @ oname obj @ NL
         in case splines_loop h f obj [] (splines obj) of
              Inl e \<Rightarrow> Inl e
            | Inr ps \<Rightarrow>
                (if ps = [] then Inr (s, um)
                 else
                   (let options = fst (compose_options h f obj ps um);
                        um' = snd (compose_options h f obj ps um)
                    in case py_join '','' options of
                         Inl e \<Rightarrow> Inl e
                       | Inr optstr \<Rightarrow>
                           (let emptstr = empties_str h f obj empties;
                                ps' = (if \<not> WRAP_LINES f
                                       then join '' '' (split_ws (replace_chr (CHR 0x0A) (CHR '' '') ps))
                                       else ps)
                            in if 50 < length optstr \<or> emptstr \<noteq> []
                               then Inr (s @ BSL @ ''path['' @ optstr @ '']'' @ NL @ emptstr @
                                         ''  '' @ rstrip ps' @ '';'' @ NL, um')
                               else Inr (s @ BSL @ ''path['' @ optstr @ ''] '' @
                                         rstrip ps' @ '';'' @ NL, um')))))
      else if otype obj = ''Empty'' \<and> EMPTIES f \<and> parent obj = None then
        Inr (BSL @ ''coordinate ('' @ tikzify (oname obj) @ '') at ('' @
             fmt4 (vx (matrix_world obj)) @ '','' @ fmt4 (vy (matrix_world obj)) @ '');'' @ NL, um)
      else Inr ([], um))"

section \<open>The export\<close>

definition z_comp :: "scene_object \<Rightarrow> scene_object \<Rightarrow> int" where
  "z_comp a b = cmp (vz (matrix_world a)) (vz (matrix_world b))"

text \<open>
  \<open>sorted(objects, key=functools.cmp_to_key(z_comp))\<close>: Python's sort is stable and
  compares two keys by \<open>z_comp a b < 0\<close> only. It is modelled by a stable insertion
  sort that makes the same comparisons.
\<close>

fun insort_cmp :: "('a \<Rightarrow> 'a \<Rightarrow> int) \<Rightarrow> 'a \<Rightarrow> 'a list \<Rightarrow> 'a list" where
  "insort_cmp c a [] = [a]"
| "insort_cmp c a (b # bs) = (if c b a < 0 then b # insort_cmp c a bs else a # b # bs)"

definition sorted_cmp :: "('a \<Rightarrow> 'a \<Rightarrow> int) \<Rightarrow> 'a list \<Rightarrow> 'a list" where
  "sorted_cmp c xs = foldr (insort_cmp c) xs []"

text \<open>The dictionary from a parent to its selected empties, keyed by the parent's
  identity.\<close>

definition empties_of :: "scene_object list \<Rightarrow> (nat \<times> scene_object list) list" where
  "empties_of objects =
     fold (\<lambda>empty d.
             (case parent empty of
                None \<Rightarrow> d
              | Some p \<Rightarrow>
                  (case map_of d p of
                     Some es \<Rightarrow> dict_set p (es @ [empty]) d
                   | None \<Rightarrow> dict_set p [empty] d)))
          (filter (\<lambda>obj. otype obj = ''Empty'' \<and> parent obj \<noteq> None) objects) []"

text \<open>The loop \<open>code += write_object(obj, ...)\<close> over the sorted objects.\<close>

fun write_objects ::
  "host \<Rightarrow> (nat \<times> scene_object list) list \<Rightarrow> flags \<Rightarrow> string \<Rightarrow> used_materials
     \<Rightarrow> scene_object list \<Rightarrow> exn + string \<times> used_materials" where
  "write_objects h empties f code um [] = Inr (code, um)"
| "write_objects h empties f code um (obj # objs) =
     (case write_object h obj empties f um of
        Inl e \<Rightarrow> Inl e
      | Inr (t, um') \<Rightarrow> write_objects h empties f (code @ t) um' objs)"

text \<open>The templates, applied to their variables.\<close>

definition standalone_template :: "string \<Rightarrow> string \<Rightarrow> string \<Rightarrow> string" where
  "standalone_template preamble matcode pathcode =
     NL @ BSL @ ''documentclass{article}'' @ NL @
     BSL @ ''usepackage{tikz}'' @ NL @
     preamble @ NL @
     matcode @ NL @
     BSL @ ''begin{document}'' @ NL @
     BSL @ ''begin{tikzpicture}'' @ NL @
     pathcode @ NL @
     BSL @ ''end{tikzpicture}'' @ NL @
     BSL @ ''end{document}'' @ NL"

definition fig_template :: "string \<Rightarrow> string \<Rightarrow> string" where
  "fig_template matcode pathcode =
     NL @ matcode @ NL @
     BSL @ ''begin{tikzpicture}'' @ NL @
     pathcode @ NL @
     BSL @ ''end{tikzpicture}'' @ NL"

text \<open>The choice of the template and its expansion (\<open>s = template % templatevars\<close>).\<close>

definition assemble :: "flags \<Rightarrow> (string \<times> pyval) list \<Rightarrow> string \<Rightarrow> string \<Rightarrow> string" where
  "assemble f scn_properties code matcode =
     (let preamblecode = (case map_of scn_properties ''preamble'' of
                            None \<Rightarrow> [] | Some v \<Rightarrow> py_str v)
      in if STANDALONE f then standalone_template preamblecode matcode code
         else if CODE_ONLY f then code
         else fig_template matcode code)"

text \<open>What reached the sinks: the file (its path and content) and the clipboard. A
  failed file write leaves \<open>None\<close>.\<close>

record sink =
  file_written :: "(string \<times> string) option"
  clipboard :: "string option"

definition no_output :: sink where
  "no_output = \<lparr>file_written = None, clipboard = None\<rparr>"

definition file_header :: string where
  "file_header = ''% Generated by tikz_export.py v (2, 0) '' @ NL"

text \<open>The end of \<open>write_tex\<close>, from \<open>if not CLIPBOARD_OUTPUT:\<close> on: the status
  returned and what reaches the sinks for the assembled document \<open>s\<close>.\<close>

definition deliver :: "host \<Rightarrow> flags \<Rightarrow> string \<Rightarrow> string \<Rightarrow> string \<times> sink" where
  "deliver h f filepath s =
     (if \<not> CLIPBOARD_OUTPUT f then
        (if file_ok h filepath
         then (''File sucesfully writen'',
               \<lparr>file_written = Some (filepath, file_header @ s), clipboard = None\<rparr>)
         else (''Failed to write file'', no_output))
      else if \<not> clipboard_ok h
      then (''Failed  to write to clipboard'', no_output)
      else (''tikz_export ended ...'', \<lparr>file_written = None, clipboard = Some s\<rparr>))"

text \<open>\<open>write_tex\<close> from the table \<open>um\<close> that the module holds when it is called: the
  status it returns, the sinks, and the table it leaves.\<close>

definition write_tex ::
  "host \<Rightarrow> export_context \<Rightarrow> string \<Rightarrow> flags \<Rightarrow> used_materials
     \<Rightarrow> exn + string \<times> sink \<times> used_materials" where
  "write_tex h ctx filepath f um =
     (if length (selected_objects ctx) = 0
      then Inr (''ERROR: Please select at least one curve'', no_output, um)
      else
        (let objects = selected_objects ctx;
             empties_dict = empties_of objects
         in case write_objects h empties_dict f [] um (sorted_cmp z_comp objects) of
              Inl e \<Rightarrow> Inl e
            | Inr (code, um') \<Rightarrow>
                (case (if EXPORT_MATERIALS f then write_materials h um' (ONLY_PROPERTIES f)
                       else Inr []) of
                   Inl e \<Rightarrow> Inl e
                 | Inr matcode \<Rightarrow>
                     (let s = assemble f (scene_properties ctx) code matcode
                      in Inr (fst (deliver h f filepath s), snd (deliver h f filepath s),
                              um')))))"

text \<open>\<open>TechFileExport.execute\<close>: the status is printed and the operator finishes.\<close>

record report =
  printed_status :: string
  operator_result :: string
  sinks :: sink
  table :: used_materials

definition execute ::
  "host \<Rightarrow> export_context \<Rightarrow> string \<Rightarrow> flags \<Rightarrow> used_materials \<Rightarrow> exn + report" where
  "execute h ctx filepath f um =
     (case write_tex h ctx filepath f um of
        Inl e \<Rightarrow> Inl e
      | Inr (status, out, um') \<Rightarrow>
          Inr \<lparr>printed_status = status, operator_result = ''FINISHED'',
               sinks = out, table = um'\<rparr>)"

section \<open>Notions used in the properties\<close>

text \<open>The depth coordinate that \<open>z_comp\<close> compares.\<close>

definition depth :: "scene_object \<Rightarrow> rat" where
  "depth obj = vz (matrix_world obj)"

text \<open>The text that \<open>write_object\<close> returns for an object (it does not depend on the
  material table), empty when the call raises.\<close>

definition object_text ::
  "host \<Rightarrow> (nat \<times> scene_object list) list \<Rightarrow> flags \<Rightarrow> scene_object \<Rightarrow> string" where
  "object_text h empties f obj =
     (case write_object h obj empties f [] of Inl e \<Rightarrow> [] | Inr r \<Rightarrow> fst r)"

text \<open>The specification's transliteration of one character of a material name:
  backslash, comma, colon and period become \<open>-\<close>, \<open>+\<close>, \<open>_\<close> and \<open>*\<close>.\<close>

definition translit :: "char \<Rightarrow> char" where
  "translit c =
     (if c = CHR 0x5C then CHR ''-'' else if c = CHR '','' then CHR ''+''
      else if c = CHR '':'' then CHR ''_'' else if c = CHR ''.'' then CHR ''*'' else c)"

text \<open>A sequence of \<open>get_material\<close> calls, one per reference, from a table, while the
  host's materials stay as they are.\<close>

definition register_all :: "host \<Rightarrow> mref list \<Rightarrow> used_materials \<Rightarrow> used_materials" where
  "register_all h rs um = fold (\<lambda>r t. snd (get_material h (Some r) t)) rs um"

text \<open>The elements of a list in the order of their first occurrence.\<close>

definition first_seen :: "'a list \<Rightarrow> 'a list" where
  "first_seen xs = rev (remdups (rev xs))"

text \<open>The references in the slots of an object.\<close>

definition slot_materials :: "scene_object \<Rightarrow> mref list" where
  "slot_materials obj =
     concat (map (\<lambda>m. case m of None \<Rightarrow> [] | Some x \<Rightarrow> [x])
                 (case materials obj of None \<Rightarrow> [] | Some ms \<Rightarrow> ms))"










section \<open>Example scenes\<close>


text \<open>The defaults of the operator's options.\<close>

definition default_flags :: flags where
  "default_flags =
     \<lparr>USE_PLOTPATH = False, WRAP_LINES = True, DRAW_CURVE = True, FILL_CLOSED_CURVE = False,
      TRANSFORM_CURVE = False, EXPORT_MATERIALS = False, EMPTIES = False,
      ONLY_PROPERTIES = False, STANDALONE = True, CODE_ONLY = False,
      CLIPBOARD_OUTPUT = False\<rparr>"

text \<open>The materials of the examples, and the references 1 to 4 that denote them.\<close>

definition red :: material where
  "red = \<lparr>mat_name = ''Red.1'', mat_properties = [], rgbCol = (1, 0, 0), alpha = 1\<rparr>"

definition blue :: material where
  "blue = \<lparr>mat_name = ''Blue'', mat_properties = [(''style'', PStr ''thick'')],
           rgbCol = (0, 0, 1), alpha = 1\<rparr>"

definition blank_a :: material where
  "blank_a = \<lparr>mat_name = '' '', mat_properties = [], rgbCol = (1, 0, 0), alpha = 1\<rparr>"

definition blank_b :: material where
  "blank_b = \<lparr>mat_name = ''  '', mat_properties = [], rgbCol = (0, 1, 0), alpha = 1\<rparr>"

definition example_materials :: "mref \<Rightarrow> material" where
  "example_materials r =
     (if r = 1 then red else if r = 2 then blue else if r = 3 then blank_a else blank_b)"

text \<open>A host for the examples: \<open>float_str\<close> is Python's \<open>str\<close> on floats with a whole
  value (\<open>0.0\<close>, \<open>1.0\<close>), the only ones the examples print with it; the file and the
  clipboard accept every write.\<close>

definition example_host :: host where
  "example_host =
     \<lparr>float_str = (\<lambda>v. str_int \<lfloor>v\<rfloor> @ ''.0''),
      wrap = (\<lambda>s. [s]),
      rel_inv = (\<lambda>empty obj. vec_sub (matrix empty) (matrix obj)),
      file_ok = (\<lambda>p. True),
      clipboard_ok = True,
      material_at = example_materials\<rparr>"

definition vec :: "rat \<Rightarrow> rat \<Rightarrow> rat \<Rightarrow> vector" where
  "vec a b c = \<lparr>vx = a, vy = b, vz = c\<rparr>"

text \<open>A curve object at depth \<open>z\<close>, untransformed, without properties.\<close>

definition curve_at :: "nat \<Rightarrow> string \<Rightarrow> rat \<Rightarrow> spline list \<Rightarrow> scene_object" where
  "curve_at i n z sps =
     \<lparr>oid = i, oname = n, otype = ''CURVE'', location = vec 0 0 z, rot_z = 0,
      scale = vec 1 1 1, splines = sps, materials = Some [], properties = [],
      game_properties = [], parent = None, matrix_world = vec 0 0 z, matrix = vec 0 0 z\<rparr>"

definition poly_spline :: "bool \<Rightarrow> (rat \<times> rat) list \<Rightarrow> spline" where
  "poly_spline cyclic ps =
     \<lparr>stype = ''POLY'', bezier_points = [],
      SplinePoint = map (\<lambda>(a, b). \<lparr>sp_co = vec a b 0\<rparr>) ps, use_cyclic_u = cyclic\<rparr>"

text \<open>A Bezier spline whose handles lie a quarter to the left and right of each knot.\<close>

definition bezier_spline :: "bool \<Rightarrow> (rat \<times> rat) list \<Rightarrow> spline" where
  "bezier_spline cyclic ks =
     \<lparr>stype = ''BEZIER'',
      bezier_points = map (\<lambda>(a, b). \<lparr>handle_left = vec (a - 1 / 4) b 0, co = vec a b 0,
                                      handle_right = vec (a + 1 / 4) b 0\<rparr>) ks,
      SplinePoint = [], use_cyclic_u = cyclic\<rparr>"

definition nurbs_spline :: spline where
  "nurbs_spline = \<lparr>stype = ''NURBS'', bezier_points = [], SplinePoint = [], use_cyclic_u = False\<rparr>"

definition scene_of :: "scene_object list \<Rightarrow> export_context" where
  "scene_of objs = \<lparr>selected_objects = objs, scene_properties = []\<rparr>"

text \<open>The selection of the specification's example: depths 0.5, -1.0 and 2.0.\<close>

definition three_depths :: "scene_object list" where
  "three_depths =
     [curve_at 1 ''A'' (1 / 2) [poly_spline False [(0, 0), (1, 0)]],
      curve_at 2 ''B'' (- 1) [poly_spline False [(0, 0), (1, 0)]],
      curve_at 3 ''C'' 2 [poly_spline False [(0, 0), (1, 0)]]]"

definition code_only_flags :: flags where
  "code_only_flags =
     default_flags\<lparr>WRAP_LINES := False, STANDALONE := False, CODE_ONLY := True\<rparr>"

definition three_depths_sink :: sink where
  "three_depths_sink =
     \<lparr>file_written = Some (''out.tex'',
        ''% Generated by tikz_export.py v (2, 0) '' @ NL @
        ''% B'' @ NL @ BSL @ ''path[draw] (+0.0.4f,+0.0.4f) -- (+1.0.4f,+0.0.4f);'' @ NL @
        ''% A'' @ NL @ BSL @ ''path[draw] (+0.0.4f,+0.0.4f) -- (+1.0.4f,+0.0.4f);'' @ NL @
        ''% C'' @ NL @ BSL @ ''path[draw] (+0.0.4f,+0.0.4f) -- (+1.0.4f,+0.0.4f);'' @ NL),
      clipboard = None\<rparr>"

text \<open>Scenes for the material table.\<close>

definition fig_flags :: flags where
  "fig_flags =
     default_flags\<lparr>WRAP_LINES := False, STANDALONE := False, EXPORT_MATERIALS := True\<rparr>"

definition red_curve :: scene_object where
  "red_curve =
     (curve_at 1 ''A'' 0 [poly_spline False [(0, 0), (1, 0)]])\<lparr>materials := Some [Some 1]\<rparr>"

definition plain_curve :: scene_object where
  "plain_curve = curve_at 2 ''B'' 0 [poly_spline False [(0, 0), (1, 0)]]"

definition second_export_sink :: sink where
  "second_export_sink =
     \<lparr>file_written = Some (''b.tex'',
        ''% Generated by tikz_export.py v (2, 0) '' @ NL @ NL @
        ''% Materials section '' @ NL @
        BSL @ ''definecolor{Red*1_col}{rgb}{1.0,0.0,0.0}'' @ NL @
        BSL @ ''tikzstyle{Red*1}= [Red*1_col]'' @ NL @ NL @
        BSL @ ''begin{tikzpicture}'' @ NL @
        ''% B'' @ NL @ BSL @ ''path[draw] (+0.0.4f,+0.0.4f) -- (+1.0.4f,+0.0.4f);'' @ NL @ NL @
        BSL @ ''end{tikzpicture}'' @ NL),
      clipboard = None\<rparr>"

definition first_export_sink :: sink where
  "first_export_sink =
     \<lparr>file_written = Some (''a.tex'',
        ''% Generated by tikz_export.py v (2, 0) '' @ NL @ NL @
        ''% Materials section '' @ NL @
        BSL @ ''definecolor{Red*1_col}{rgb}{1.0,0.0,0.0}'' @ NL @
        BSL @ ''tikzstyle{Red*1}= [Red*1_col]'' @ NL @ NL @
        BSL @ ''begin{tikzpicture}'' @ NL @
        ''% A'' @ NL @ BSL @ ''path[draw,Red*1] (+0.0.4f,+0.0.4f) -- (+1.0.4f,+0.0.4f);'' @ NL @ NL @
        BSL @ ''end{tikzpicture}'' @ NL),
      clipboard = None\<rparr>"







section \<open>Evaluation lemmas\<close>

lemma str_nat_numeral:
  "str_nat (numeral k) =
     (if (numeral k :: nat) < 10 then [digit_chr (numeral k)]
      else str_nat (numeral k div 10) @ [digit_chr (numeral k mod 10)])"
  by (rule str_nat.simps)

lemma str_nat_0: "str_nat 0 = ''0''"
  by (subst str_nat.simps) (simp add: digit_chr_def)

lemma str_nat_1: "str_nat 1 = ''1''"
  by (subst str_nat.simps) (simp add: digit_chr_def)

lemma str_nat_Suc_0: "str_nat (Suc 0) = ''1''"
  by (subst str_nat.simps) (simp add: digit_chr_def)

lemmas fmt_eval = fmt4_def round_half_even_def str_int_def str_nat_numeral str_nat_0 str_nat_1
  str_nat_Suc_0 digit_chr_def

lemmas object_eval = write_object_def spline_step_def bezier_text_def used_knots_def
  used_handles_def all_knots_def all_handles_def knot_str_def controls_str_def
  compose_options_def material_ref_def get_property_def py_join_def empties_str_def
  transform_opts_def rstrip_def is_space_def find_str_def

lemmas scene_eval = curve_at_def bezier_spline_def poly_spline_def nurbs_spline_def
  default_flags_def vec_def example_host_def scene_of_def

section \<open>Template selection\<close>

text \<open>
  Claim C1, as stated, fails: with \<open>STANDALONE\<close> and \<open>CODE_ONLY\<close> both set, the export of
  one open polyline writes the standalone document, wrapper included, not the bare path
  statement.
\<close>

theorem both_set_counterexample:
  "write_tex example_host
     (scene_of [curve_at 1 ''T'' 0 [poly_spline False [(0, 0), (1, 0)]]]) ''out.tex''
     (default_flags\<lparr>WRAP_LINES := False, STANDALONE := True, CODE_ONLY := True\<rparr>) [] =
   Inr (''File sucesfully writen'',
        \<lparr>file_written = Some (''out.tex'',
           ''% Generated by tikz_export.py v (2, 0) '' @ NL @
           NL @ BSL @ ''documentclass{article}'' @ NL @
           BSL @ ''usepackage{tikz}'' @ NL @ NL @ NL @
           BSL @ ''begin{document}'' @ NL @
           BSL @ ''begin{tikzpicture}'' @ NL @
           ''% T'' @ NL @ BSL @ ''path[draw] (+0.0.4f,+0.0.4f) -- (+1.0.4f,+0.0.4f);'' @ NL @ NL @
           BSL @ ''end{tikzpicture}'' @ NL @
           BSL @ ''end{document}'' @ NL),
         clipboard = None\<rparr>, [])"
  by code_simp

text \<open>
  Claim C1, amended: the assembler tests \<open>STANDALONE\<close> first. Whenever \<open>STANDALONE\<close> is
  set, also together with \<open>CODE_ONLY\<close>, the document is the standalone template around
  the scene's preamble, the material block and the path statements. The code-only
  template, whose document is exactly the path statements, is chosen when \<open>CODE_ONLY\<close>
  is set and \<open>STANDALONE\<close> is not.
\<close>

theorem standalone_overrides_code_only:
  "(STANDALONE f \<longrightarrow>
      assemble f props code matcode =
        standalone_template (case map_of props ''preamble'' of None \<Rightarrow> [] | Some v \<Rightarrow> py_str v)
          matcode code) \<and>
   (\<not> STANDALONE f \<and> CODE_ONLY f \<longrightarrow> assemble f props code matcode = code)"
  by (simp add: assemble_def)

theorem standalone_overrides_code_only_witness:
  "assemble (default_flags\<lparr>CODE_ONLY := True\<rparr>) [] ''X'' [] = standalone_template [] [] ''X'' \<and>
   assemble (default_flags\<lparr>STANDALONE := False, CODE_ONLY := True\<rparr>) [] ''X'' [] = ''X''"
  using standalone_overrides_code_only [of "default_flags\<lparr>CODE_ONLY := True\<rparr>" "[]" "''X''" "[]"]
        standalone_overrides_code_only
          [of "default_flags\<lparr>STANDALONE := False, CODE_ONLY := True\<rparr>" "[]" "''X''" "[]"]
  by (simp add: default_flags_def)

section \<open>Empty selection\<close>

text \<open>
  Claim C8: with an empty selection \<open>write_tex\<close> returns the empty-selection error
  string at once; \<open>execute\<close> prints it as the status; nothing is written to the file or
  to the clipboard, and the material table is as before.
\<close>

theorem empty_selection_aborts:
  assumes "selected_objects ctx = []"
  shows "write_tex h ctx filepath f um =
           Inr (''ERROR: Please select at least one curve'',
                \<lparr>file_written = None, clipboard = None\<rparr>, um) \<and>
         execute h ctx filepath f um =
           Inr \<lparr>printed_status = ''ERROR: Please select at least one curve'',
                operator_result = ''FINISHED'',
                sinks = \<lparr>file_written = None, clipboard = None\<rparr>, table = um\<rparr>"
  using assms by (simp add: write_tex_def execute_def no_output_def)

theorem empty_selection_aborts_witness:
  "write_tex example_host (scene_of []) ''out.tex'' default_flags [] =
     Inr (''ERROR: Please select at least one curve'',
          \<lparr>file_written = None, clipboard = None\<rparr>, []) \<and>
   execute example_host (scene_of []) ''out.tex'' default_flags [] =
     Inr \<lparr>printed_status = ''ERROR: Please select at least one curve'',
          operator_result = ''FINISHED'',
          sinks = \<lparr>file_written = None, clipboard = None\<rparr>, table = []\<rparr>"
  using empty_selection_aborts [of "scene_of []" example_host "''out.tex''" default_flags "[]"]
  by (simp add: scene_of_def)

section \<open>Coordinate formatting\<close>

text \<open>
  Claim C3 at its own input: the closed polyline through (0,0), (1,0), (1,1), without
  line wrapping and without plot paths. The statement has the shape the claim gives,
  but each coordinate is the f-string's \<open>str\<close> of the float followed by the literal text
  \<open>.4f\<close>: \<open>+0.0.4f\<close> where the claim has \<open>+0.0000\<close>.
\<close>

theorem closed_polyline_output:
  "write_object example_host
     (curve_at 1 ''T'' 0 [poly_spline True [(0, 0), (1, 0), (1, 1)]]) []
     (default_flags\<lparr>WRAP_LINES := False, USE_PLOTPATH := False\<rparr>) [] =
   Inr (''% T'' @ NL @ BSL @ ''path[draw] '' @
        ''(+0.0.4f,+0.0.4f) -- (+1.0.4f,+0.0.4f) -- (+1.0.4f,+1.0.4f) -- (+0.0.4f,+0.0.4f) -- cycle'' @
        '';'' @ NL, [])"
  by code_simp

text \<open>
  Claim C4 at a Bezier knot with a negative coordinate: the format \<open>(+%.4f,+%.4f)\<close> puts
  a literal plus sign before the converted number, so \<open>-1.25\<close> is written \<open>+-1.2500\<close>
  where the claim has \<open>-1.2500\<close>.
\<close>

theorem bezier_negative_coordinate_output:
  "write_object example_host
     (curve_at 1 ''B'' 0 [bezier_spline False [(- 5 / 4, 1 / 2), (1, 2)]]) []
     default_flags [] =
   Inr (''% B'' @ NL @ BSL @ ''path[draw] (+-1.2500,+0.5000)'' @ NL @
        ''  .. controls (+-1.0000,+0.5000) and (+0.7500,+2.0000) .. (+1.0000,+2.0000);'' @ NL, [])"
  by (simp add: object_eval scene_eval fmt_eval)

section \<open>Unsupported splines\<close>

lemma splines_loop_unsupported:
  "\<forall>sp\<in>set sps. stype sp \<noteq> ''BEZIER'' \<and> stype sp \<noteq> ''POLY'' \<Longrightarrow>
   splines_loop h f obj ps sps = Inr ps"
  by (induction sps) (simp_all add: spline_step_def)

text \<open>
  Claim C9: for a curve object all of whose splines are neither Bezier nor polyline,
  \<open>write_object\<close> raises nothing and returns only the comment line with the object's
  name: no path statement, not even an empty one, and the material table is untouched.
  The loop over the objects goes on with the objects that follow.
\<close>

theorem unsupported_splines_no_statement:
  assumes "otype obj = ''CURVE''"
    and "\<forall>sp\<in>set (splines obj). stype sp \<noteq> ''BEZIER'' \<and> stype sp \<noteq> ''POLY''"
  shows "write_object h obj empties f um = Inr (''% '' @ oname obj @ NL, um) \<and>
         write_objects h empties f code um (obj # objs) =
           write_objects h empties f (code @ ''% '' @ oname obj @ NL) um objs"
proof -
  have "splines_loop h f obj [] (splines obj) = Inr []"
    using assms(2) by (rule splines_loop_unsupported)
  then have "write_object h obj empties f um = Inr (''% '' @ oname obj @ NL, um)"
    using assms(1) by (simp add: write_object_def)
  then show ?thesis by simp
qed

theorem unsupported_splines_no_statement_witness:
  "write_object example_host (curve_at 1 ''N'' 0 [nurbs_spline]) [] default_flags [] =
     Inr (''% N'' @ NL, []) \<and>
   write_objects example_host [] default_flags [] []
       [curve_at 1 ''N'' 0 [nurbs_spline], curve_at 2 ''M'' 0 []] =
     write_objects example_host [] default_flags (''% N'' @ NL) [] [curve_at 2 ''M'' 0 []]"
proof -
  have t: "otype (curve_at 1 ''N'' 0 [nurbs_spline]) = ''CURVE''"
    by (simp add: curve_at_def)
  have u: "\<forall>sp\<in>set (splines (curve_at 1 ''N'' 0 [nurbs_spline])).
             stype sp \<noteq> ''BEZIER'' \<and> stype sp \<noteq> ''POLY''"
    by (simp add: curve_at_def nurbs_spline_def)
  have n: "oname (curve_at 1 ''N'' 0 [nurbs_spline]) = ''N''"
    by (simp add: curve_at_def)
  from unsupported_splines_no_statement
         [OF t u, of example_host "[]" default_flags "[]" "[]" "[curve_at 2 ''M'' 0 []]"]
  show ?thesis unfolding n by simp
qed

section \<open>Draw order\<close>

lemma insort_cmp_z_comp: "insort_cmp z_comp a bs = insort_key depth a bs"
  by (induction bs) (auto simp: z_comp_def cmp_def depth_def)

lemma sorted_cmp_z_comp: "sorted_cmp z_comp objs = sort_key depth objs"
  by (induction objs) (simp_all add: sorted_cmp_def insort_cmp_z_comp)

lemma get_material_name: "fst (get_material h mat um) = fst (get_material h mat um0)"
  by (cases mat) (simp_all add: get_material_def)

lemma material_ref_names: "fst (material_ref h f obj um) = fst (material_ref h f obj um0)"
  using get_material_name [of h _ um um0]
  by (simp add: material_ref_def split: option.splits)

lemma compose_options_names:
  "fst (compose_options h f obj ps um) = fst (compose_options h f obj ps um0)"
  using material_ref_names [of h f obj um um0] by (simp add: compose_options_def)

text \<open>The text of an object does not depend on the table, nor does whether the call
  returns.\<close>

lemma write_object_any_table:
  assumes "write_object h obj empties f um = Inr (t, um')"
  shows "\<exists>u. write_object h obj empties f um0 = Inr (t, u)"
  using assms compose_options_names [of h f obj _ um um0]
  unfolding write_object_def Let_def
  by (auto split: if_splits sum.splits)

lemma write_object_text:
  assumes "write_object h obj empties f um = Inr (t, um')"
  shows "\<exists>u. write_object h obj empties f [] = Inr (object_text h empties f obj, u)"
proof -
  from write_object_any_table [OF assms, of "[]"] obtain u where
    u: "write_object h obj empties f [] = Inr (t, u)" by (elim exE)
  then have "object_text h empties f obj = t" by (simp add: object_text_def)
  with u show ?thesis by simp
qed

lemma write_objects_code:
  "write_objects h empties f code um objs = Inr (code', um') \<Longrightarrow>
   code' = code @ concat (map (object_text h empties f) objs) \<and>
   (\<forall>obj\<in>set objs. \<exists>u. write_object h obj empties f [] =
                            Inr (object_text h empties f obj, u))"
proof (induction objs arbitrary: code um)
  case Nil
  then show ?case by simp
next
  case (Cons obj objs)
  then obtain t um1 where w: "write_object h obj empties f um = Inr (t, um1)"
    and r: "write_objects h empties f (code @ t) um1 objs = Inr (code', um')"
    by (auto split: sum.splits)
  from write_object_text [OF w] obtain u where
    u: "write_object h obj empties f [] = Inr (object_text h empties f obj, u)"
    by (elim exE)
  from write_object_any_table [OF w, of "[]"] u have t: "object_text h empties f obj = t"
    by auto
  from Cons.IH [OF r] t u show ?case by auto
qed

lemma sorted_cmp_set: "set (sorted_cmp z_comp objs) = set objs"
  by (simp add: sorted_cmp_z_comp)

text \<open>What a returning \<open>write_tex\<close> has done for a selection that is not empty.\<close>

lemma write_tex_result:
  assumes "write_tex h ctx filepath f um = Inr (st, out, um')"
    and "selected_objects ctx \<noteq> []"
  shows "\<exists>code matcode.
           write_objects h (empties_of (selected_objects ctx)) f [] um
             (sorted_cmp z_comp (selected_objects ctx)) = Inr (code, um') \<and>
           (if EXPORT_MATERIALS f then write_materials h um' (ONLY_PROPERTIES f) else Inr []) =
             Inr matcode \<and>
           (st, out) = deliver h f filepath (assemble f (scene_properties ctx) code matcode)"
  using assms unfolding write_tex_def Let_def
  by (simp split: sum.splits prod.splits if_splits add: prod_eq_iff)

text \<open>
  Claim C5: the objects are serialized in the order \<open>sorted_cmp z_comp\<close> gives the
  selection. That order is ascending in the depth coordinate, and objects of equal
  depth keep their order in the selection. When \<open>write_tex\<close> returns for a selection
  that is not empty, every object has a text (\<open>write_object\<close> returned for it), the
  path code is the concatenation of these texts in that order, and the document
  assembled from that path code is what is delivered: with status
  \<open>File sucesfully writen\<close> the file holds the header and that document, with status
  \<open>tikz_export ended ...\<close> the clipboard holds that document, and when the sink
  refuses the write the status says so and nothing is written.
\<close>

theorem draw_order_by_depth:
  assumes "write_tex h ctx filepath f um = Inr (st, out, um')"
    and "selected_objects ctx \<noteq> []"
  shows "sorted (map depth (sorted_cmp z_comp (selected_objects ctx))) \<and>
         (\<forall>k. filter (\<lambda>obj. depth obj = k) (sorted_cmp z_comp (selected_objects ctx)) =
              filter (\<lambda>obj. depth obj = k) (selected_objects ctx)) \<and>
         (\<forall>obj\<in>set (selected_objects ctx).
            \<exists>u. write_object h obj (empties_of (selected_objects ctx)) f [] =
                  Inr (object_text h (empties_of (selected_objects ctx)) f obj, u)) \<and>
         (\<exists>matcode.
            (if EXPORT_MATERIALS f then write_materials h um' (ONLY_PROPERTIES f) else Inr []) =
              Inr matcode \<and>
            (st, out) =
              (if \<not> CLIPBOARD_OUTPUT f then
                 (if file_ok h filepath
                  then (''File sucesfully writen'',
                        \<lparr>file_written =
                           Some (filepath,
                                 file_header @
                                 assemble f (scene_properties ctx)
                                   (concat (map (object_text h
                                                   (empties_of (selected_objects ctx)) f)
                                              (sorted_cmp z_comp (selected_objects ctx))))
                                   matcode),
                         clipboard = None\<rparr>)
                  else (''Failed to write file'', no_output))
               else if \<not> clipboard_ok h
               then (''Failed  to write to clipboard'', no_output)
               else (''tikz_export ended ...'',
                     \<lparr>file_written = None,
                      clipboard =
                        Some (assemble f (scene_properties ctx)
                                (concat (map (object_text h
                                                (empties_of (selected_objects ctx)) f)
                                           (sorted_cmp z_comp (selected_objects ctx))))
                                matcode)\<rparr>)))"
proof (intro conjI)
  show "sorted (map depth (sorted_cmp z_comp (selected_objects ctx)))"
    by (simp add: sorted_cmp_z_comp)
  show "\<forall>k. filter (\<lambda>obj. depth obj = k) (sorted_cmp z_comp (selected_objects ctx)) =
              filter (\<lambda>obj. depth obj = k) (selected_objects ctx)"
    by (simp add: sorted_cmp_z_comp sort_key_stable)
  from write_tex_result [OF assms] obtain code matcode where
    r: "write_objects h (empties_of (selected_objects ctx)) f [] um
          (sorted_cmp z_comp (selected_objects ctx)) = Inr (code, um') \<and>
        (if EXPORT_MATERIALS f then write_materials h um' (ONLY_PROPERTIES f) else Inr []) =
             Inr matcode \<and>
        (st, out) = deliver h f filepath (assemble f (scene_properties ctx) code matcode)"
    by (elim exE) (rule that, assumption)
  note w = conjunct1 [OF r]
  note m = conjunct1 [OF conjunct2 [OF r]]
  note d = conjunct2 [OF conjunct2 [OF r], unfolded deliver_def]
  from write_objects_code [OF w]
  have c: "concat (map (object_text h (empties_of (selected_objects ctx)) f)
                            (sorted_cmp z_comp (selected_objects ctx))) = code"
    and e: "\<forall>obj\<in>set (sorted_cmp z_comp (selected_objects ctx)).
              \<exists>u. write_object h obj (empties_of (selected_objects ctx)) f [] =
                    Inr (object_text h (empties_of (selected_objects ctx)) f obj, u)"
    by simp_all
  from e show "\<forall>obj\<in>set (selected_objects ctx).
            \<exists>u. write_object h obj (empties_of (selected_objects ctx)) f [] =
                  Inr (object_text h (empties_of (selected_objects ctx)) f obj, u)"
    unfolding sorted_cmp_set .
  from m d show "\<exists>matcode.
            (if EXPORT_MATERIALS f then write_materials h um' (ONLY_PROPERTIES f) else Inr []) =
              Inr matcode \<and>
            (st, out) =
              (if \<not> CLIPBOARD_OUTPUT f then
                 (if file_ok h filepath
                  then (''File sucesfully writen'',
                        \<lparr>file_written =
                           Some (filepath,
                                 file_header @
                                 assemble f (scene_properties ctx)
                                   (concat (map (object_text h
                                                   (empties_of (selected_objects ctx)) f)
                                              (sorted_cmp z_comp (selected_objects ctx))))
                                   matcode),
                         clipboard = None\<rparr>)
                  else (''Failed to write file'', no_output))
               else if \<not> clipboard_ok h
               then (''Failed  to write to clipboard'', no_output)
               else (''tikz_export ended ...'',
                     \<lparr>file_written = None,
                      clipboard =
                        Some (assemble f (scene_properties ctx)
                                (concat (map (object_text h
                                                (empties_of (selected_objects ctx)) f)
                                           (sorted_cmp z_comp (selected_objects ctx))))
                                matcode)\<rparr>))"
    unfolding c by (intro exI [of _ matcode] conjI)
qed

lemma three_depths_export:
  "write_tex example_host (scene_of three_depths) ''out.tex'' code_only_flags [] =
     Inr (''File sucesfully writen'', three_depths_sink, [])"
  by code_simp

lemma three_depths_sorted:
  "map oname (sorted_cmp z_comp (selected_objects (scene_of three_depths))) =
     [''B'', ''A'', ''C'']"
  by code_simp

lemma three_depths_texts:
  "map (object_text example_host (empties_of (selected_objects (scene_of three_depths)))
          code_only_flags)
       (sorted_cmp z_comp (selected_objects (scene_of three_depths))) =
     [''% B'' @ NL @ BSL @ ''path[draw] (+0.0.4f,+0.0.4f) -- (+1.0.4f,+0.0.4f);'' @ NL,
      ''% A'' @ NL @ BSL @ ''path[draw] (+0.0.4f,+0.0.4f) -- (+1.0.4f,+0.0.4f);'' @ NL,
      ''% C'' @ NL @ BSL @ ''path[draw] (+0.0.4f,+0.0.4f) -- (+1.0.4f,+0.0.4f);'' @ NL]"
  by code_simp

theorem draw_order_by_depth_witness:
  "write_tex example_host (scene_of three_depths) ''out.tex'' code_only_flags [] =
     Inr (''File sucesfully writen'', three_depths_sink, []) \<and>
   selected_objects (scene_of three_depths) \<noteq> [] \<and>
   map oname (selected_objects (scene_of three_depths)) = [''A'', ''B'', ''C''] \<and>
   map depth (selected_objects (scene_of three_depths)) = [1 / 2, - 1, 2] \<and>
   map oname (sorted_cmp z_comp (selected_objects (scene_of three_depths))) =
     [''B'', ''A'', ''C''] \<and>
   sorted (map depth (sorted_cmp z_comp (selected_objects (scene_of three_depths)))) \<and>
   (\<forall>k. filter (\<lambda>obj. depth obj = k)
          (sorted_cmp z_comp (selected_objects (scene_of three_depths))) =
        filter (\<lambda>obj. depth obj = k) (selected_objects (scene_of three_depths)))"
proof -
  have ne: "selected_objects (scene_of three_depths) \<noteq> []"
    by (simp add: scene_of_def three_depths_def)
  have n: "map oname (selected_objects (scene_of three_depths)) = [''A'', ''B'', ''C'']"
    by (simp add: scene_of_def three_depths_def curve_at_def)
  have z: "map depth (selected_objects (scene_of three_depths)) = [1 / 2, - 1, 2]"
    by (simp add: scene_of_def three_depths_def curve_at_def depth_def vec_def)
  show ?thesis
    by (intro conjI three_depths_export ne n z three_depths_sorted
          draw_order_by_depth [OF three_depths_export ne, THEN conjunct1]
          draw_order_by_depth [OF three_depths_export ne, THEN conjunct2, THEN conjunct1])
qed

section \<open>The material table\<close>

lemma mreplace_translit: "mreplace s (CHR 0x5C # '',:.'') ''-+_*'' = map translit s"
  by (simp add: mreplace_def replace_chr_def translit_def)

lemma tikzify_translit: "tikzify s = (if strip s \<noteq> [] then map translit s else [])"
  by (simp add: tikzify_def mreplace_translit)

lemma dict_set_keys:
  "map fst (dict_set k v d) = (if k \<in> set (map fst d) then map fst d else map fst d @ [k])"
  by (induction d) auto

lemma dict_set_map_of: "map_of (dict_set k v d) = (map_of d)(k \<mapsto> v)"
  by (induction d) (auto simp: fun_eq_iff)

lemma remdups_skip: "k \<in> set ys \<Longrightarrow> remdups (xs @ k # ys) = remdups (xs @ ys)"
  by (induction xs) auto

lemma first_seen_append_known:
  "k \<in> set acc \<Longrightarrow> first_seen (acc @ k # ks) = first_seen (acc @ ks)"
  by (simp add: first_seen_def remdups_skip)

lemma first_seen_distinct: "distinct acc \<Longrightarrow> first_seen acc = acc"
  by (simp add: first_seen_def distinct_remdups_id)

lemma first_seen_props: "distinct (first_seen xs) \<and> set (first_seen xs) = set xs"
  by (simp add: first_seen_def)

lemma register_all_Cons:
  "register_all h (r # rs) um =
     register_all h rs (dict_set (tikzify (mat_name (material_at h r))) r um)"
  by (simp add: register_all_def get_material_def)

lemma register_all_keys:
  "distinct (map fst um) \<Longrightarrow>
   map fst (register_all h rs um) =
     first_seen (map fst um @ map (\<lambda>r. tikzify (mat_name (material_at h r))) rs)"
proof (induction rs arbitrary: um)
  case Nil
  then show ?case by (simp add: register_all_def first_seen_distinct)
next
  case (Cons r rs)
  let ?k = "tikzify (mat_name (material_at h r))"
  let ?um1 = "dict_set ?k r um"
  show ?case
  proof (cases "?k \<in> set (map fst um)")
    case True
    then have k: "map fst ?um1 = map fst um" by (simp add: dict_set_keys)
    with Cons.prems have "distinct (map fst ?um1)" by simp
    from Cons.IH [OF this] show ?thesis
      unfolding register_all_Cons k using first_seen_append_known [OF True] by simp
  next
    case False
    then have k: "map fst ?um1 = map fst um @ [?k]"
      by (simp add: dict_set_keys)
    with Cons.prems False have "distinct (map fst ?um1)" by simp
    from Cons.IH [OF this] show ?thesis unfolding register_all_Cons k by simp
  qed
qed

text \<open>The reference stored under a name is the one registered last under it.\<close>

lemma register_all_map_of:
  "map_of (register_all h rs um) k =
     (if filter (\<lambda>r. tikzify (mat_name (material_at h r)) = k) rs = [] then map_of um k
      else Some (last (filter (\<lambda>r. tikzify (mat_name (material_at h r)) = k) rs)))"
proof (induction rs arbitrary: um)
  case Nil
  then show ?case by (simp add: register_all_def)
next
  case (Cons r rs)
  show ?case unfolding register_all_Cons Cons.IH by (simp add: dict_set_map_of)
qed

lemma register_all_entry:
  assumes "p \<in> set (register_all h rs [])"
  shows "snd p = last (filter (\<lambda>r. tikzify (mat_name (material_at h r)) = fst p) rs) \<and>
         snd p \<in> set rs \<and> tikzify (mat_name (material_at h (snd p))) = fst p"
proof -
  let ?fs = "filter (\<lambda>r. tikzify (mat_name (material_at h r)) = fst p) rs"
  have d: "distinct (map fst (register_all h rs []))"
    using register_all_keys [of "[]" h rs] by (simp add: first_seen_props)
  from assms have "(fst p, snd p) \<in> set (register_all h rs [])" by simp
  with d have m: "map_of (register_all h rs []) (fst p) = Some (snd p)" by simp
  with register_all_map_of [of h rs "[]" "fst p"] have ne: "?fs \<noteq> []"
    by (auto split: if_splits)
  with m register_all_map_of [of h rs "[]" "fst p"] have l: "snd p = last ?fs" by simp
  from ne have "last ?fs \<in> set ?fs" by (rule last_in_set)
  with l show ?thesis by simp
qed

lemma materials_loop_text:
  "materials_loop h op c ms = Inr c' \<Longrightarrow>
   \<exists>ts. c' = c @ concat ts \<and> list_all2 (\<lambda>m t. material_entry h op m = Inr t) ms ts"
proof (induction ms arbitrary: c)
  case Nil
  then show ?case by simp
next
  case (Cons m ms)
  then obtain t where e: "material_entry h op m = Inr t"
    and r: "materials_loop h op (c @ t) ms = Inr c'"
    by (auto split: sum.splits)
  from Cons.IH [OF r] obtain ts where
    "c' = (c @ t) @ concat ts" "list_all2 (\<lambda>m t. material_entry h op m = Inr t) ms ts"
    by blast
  with e have "c' = c @ concat (t # ts) \<and>
               list_all2 (\<lambda>m t. material_entry h op m = Inr t) (m # ms) (t # ts)"
    by simp
  then show ?case by (rule exI)
qed

lemma material_entry_shape:
  assumes "material_entry h op m = Inr t"
  shows "\<exists>optstr. py_join '','' (material_options h op m) = Inr optstr \<and>
           t = (if material_derived op m
                then BSL @ ''definecolor{'' @ tikzify (mat_name m) @ ''_col}{rgb}{'' @
                     float_str h (fst (rgbCol m)) @ '','' @ float_str h (fst (snd (rgbCol m))) @
                     '','' @ float_str h (snd (snd (rgbCol m))) @ ''}'' @ NL
                else []) @
               BSL @ ''tikzstyle{'' @ tikzify (mat_name m) @ ''}= ['' @ optstr @ '']'' @ NL"
proof (cases "py_join '','' (material_options h op m)")
  case (Inl e)
  with assms show ?thesis by (simp add: material_entry_def)
next
  case (Inr optstr)
  with assms have "t = (if material_derived op m
                        then color_definition h (tikzify (mat_name m)) (rgbCol m) else []) @
                       style_binding (tikzify (mat_name m)) optstr"
    by (simp add: material_entry_def)
  then show ?thesis unfolding Inr color_definition_def style_binding_def by simp
qed

text \<open>
  Claim C7, as stated, fails on names without a visible character: the names \<open>" "\<close> and
  \<open>"  "\<close> have different transliterations, but \<open>tikzify\<close> maps both to the empty
  name, so the two materials share one table entry and one definition (of the material
  registered last).
\<close>

theorem blank_names_counterexample:
  "map translit (mat_name (material_at example_host 3)) \<noteq>
     map translit (mat_name (material_at example_host 4)) \<and>
   write_materials example_host (register_all example_host [3, 4] []) False =
     Inr (''% Materials section '' @ NL @
          BSL @ ''definecolor{_col}{rgb}{0.0,1.0,0.0}'' @ NL @
          BSL @ ''tikzstyle{}= [_col]'' @ NL)"
  by code_simp

text \<open>
  The table holds references, and \<open>write_materials\<close> reads the name of a material when
  it writes: a material renamed after its registration is written under its new name,
  whatever the key it was registered under. Here the material 2 is registered as
  \<open>Blue\<close> and then renamed to \<open>Red.1\<close>, the name of the material 1: the block binds
  \<open>Red*1\<close> twice. The property below is therefore stated for registrations and a
  writing that see the same materials.
\<close>

lemma renamed_material_written_twice:
  "map fst (register_all example_host [1, 2] []) = [''Red*1'', ''Blue''] \<and>
   write_materials
     (example_host\<lparr>material_at := (\<lambda>r. if r = 2 then blue\<lparr>mat_name := ''Red.1''\<rparr>
                                          else example_materials r)\<rparr>)
     (register_all example_host [1, 2] []) False =
     Inr (''% Materials section '' @ NL @
          BSL @ ''definecolor{Red*1_col}{rgb}{1.0,0.0,0.0}'' @ NL @
          BSL @ ''tikzstyle{Red*1}= [Red*1_col]'' @ NL @
          BSL @ ''definecolor{Red*1_col}{rgb}{0.0,0.0,1.0}'' @ NL @
          BSL @ ''tikzstyle{Red*1}= [Red*1_col,thick]'' @ NL)"
  by code_simp

text \<open>
  Claim C7, amended: registration is idempotent and first-seen ordered on the names
  that \<open>tikzify\<close> gives. For every sequence \<open>rs\<close> of registered materials, starting from
  the empty table and with the materials unchanged between the registrations and the
  writing: the table holds each distinct \<open>tikzify\<close> name once, in the order of first
  registration; the material stored under a name is the one registered last under it,
  and it has that name; and when \<open>write_materials\<close> returns, its text is the header
  followed by one text per table entry, in the order of the table, which is exactly:
  the \<open>definecolor\<close> line of that name with the colour of the stored material, if
  \<open>material_derived\<close> holds for it, and then one \<open>tikzstyle\<close> line binding that name
  to the comma-joined \<open>material_options\<close> of the stored material. \<open>tikzify\<close> replaces
  backslash, comma, colon and period by \<open>-\<close>, \<open>+\<close>, \<open>_\<close> and \<open>*\<close> in a name that has a
  character other than whitespace, and gives the empty name otherwise.
\<close>

theorem material_table_first_seen:
  assumes "write_materials h (register_all h rs []) only_props = Inr c"
  shows "map fst (register_all h rs []) =
           first_seen (map (\<lambda>r. tikzify (mat_name (material_at h r))) rs) \<and>
         distinct (map fst (register_all h rs [])) \<and>
         (\<forall>p\<in>set (register_all h rs []).
            snd p = last (filter (\<lambda>r. tikzify (mat_name (material_at h r)) = fst p) rs) \<and>
            snd p \<in> set rs \<and> tikzify (mat_name (material_at h (snd p))) = fst p) \<and>
         (\<exists>ts. c = ''% Materials section '' @ NL @ concat ts \<and>
               list_all2
                 (\<lambda>p t. \<exists>optstr.
                    py_join '','' (material_options h only_props (material_at h (snd p))) =
                      Inr optstr \<and>
                    t = (if material_derived only_props (material_at h (snd p))
                         then BSL @ ''definecolor{'' @ fst p @ ''_col}{rgb}{'' @
                              float_str h (fst (rgbCol (material_at h (snd p)))) @ '','' @
                              float_str h (fst (snd (rgbCol (material_at h (snd p))))) @ '','' @
                              float_str h (snd (snd (rgbCol (material_at h (snd p))))) @ ''}'' @
                              NL
                         else []) @
                        BSL @ ''tikzstyle{'' @ fst p @ ''}= ['' @ optstr @ '']'' @ NL)
                 (register_all h rs []) ts) \<and>
         (\<forall>s. tikzify s = (if strip s \<noteq> [] then map translit s else []))"
proof (intro conjI)
  show k: "map fst (register_all h rs []) =
             first_seen (map (\<lambda>r. tikzify (mat_name (material_at h r))) rs)"
    using register_all_keys [of "[]" h rs] by simp
  show "distinct (map fst (register_all h rs []))"
    unfolding k by (simp add: first_seen_props)
  show "\<forall>s. tikzify s = (if strip s \<noteq> [] then map translit s else [])"
    by (simp add: tikzify_translit)
  show "\<forall>p\<in>set (register_all h rs []).
            snd p = last (filter (\<lambda>r. tikzify (mat_name (material_at h r)) = fst p) rs) \<and>
            snd p \<in> set rs \<and> tikzify (mat_name (material_at h (snd p))) = fst p"
    by (rule ballI) (rule register_all_entry)
  from assms materials_loop_text obtain ts where
    c: "c = (''% Materials section '' @ NL) @ concat ts"
    and l: "list_all2 (\<lambda>m t. material_entry h only_props m = Inr t)
              (map (\<lambda>p. material_at h (snd p)) (register_all h rs [])) ts"
    unfolding write_materials_def by blast
  have "list_all2
          (\<lambda>p t. \<exists>optstr.
             py_join '','' (material_options h only_props (material_at h (snd p))) =
               Inr optstr \<and>
             t = (if material_derived only_props (material_at h (snd p))
                  then BSL @ ''definecolor{'' @ fst p @ ''_col}{rgb}{'' @
                       float_str h (fst (rgbCol (material_at h (snd p)))) @ '','' @
                       float_str h (fst (snd (rgbCol (material_at h (snd p))))) @ '','' @
                       float_str h (snd (snd (rgbCol (material_at h (snd p))))) @ ''}'' @
                       NL
                  else []) @
                 BSL @ ''tikzstyle{'' @ fst p @ ''}= ['' @ optstr @ '']'' @ NL)
          (register_all h rs []) ts"
  proof (rule list.rel_mono_strong [OF l [unfolded list_all2_map1]])
    fix p t
    assume p: "p \<in> set (register_all h rs [])"
      and e: "material_entry h only_props (material_at h (snd p)) = Inr t"
    have f: "tikzify (mat_name (material_at h (snd p))) = fst p"
      by (rule conjunct2 [OF conjunct2 [OF register_all_entry [OF p]]])
    from material_entry_shape [OF e] show
      "\<exists>optstr.
             py_join '','' (material_options h only_props (material_at h (snd p))) =
               Inr optstr \<and>
             t = (if material_derived only_props (material_at h (snd p))
                  then BSL @ ''definecolor{'' @ fst p @ ''_col}{rgb}{'' @
                       float_str h (fst (rgbCol (material_at h (snd p)))) @ '','' @
                       float_str h (fst (snd (rgbCol (material_at h (snd p))))) @ '','' @
                       float_str h (snd (snd (rgbCol (material_at h (snd p))))) @ ''}'' @
                       NL
                  else []) @
                 BSL @ ''tikzstyle{'' @ fst p @ ''}= ['' @ optstr @ '']'' @ NL"
      unfolding f .
  qed
  with c show "\<exists>ts. c = ''% Materials section '' @ NL @ concat ts \<and>
               list_all2
                 (\<lambda>p t. \<exists>optstr.
                    py_join '','' (material_options h only_props (material_at h (snd p))) =
                      Inr optstr \<and>
                    t = (if material_derived only_props (material_at h (snd p))
                         then BSL @ ''definecolor{'' @ fst p @ ''_col}{rgb}{'' @
                              float_str h (fst (rgbCol (material_at h (snd p)))) @ '','' @
                              float_str h (fst (snd (rgbCol (material_at h (snd p))))) @ '','' @
                              float_str h (snd (snd (rgbCol (material_at h (snd p))))) @ ''}'' @
                              NL
                         else []) @
                        BSL @ ''tikzstyle{'' @ fst p @ ''}= ['' @ optstr @ '']'' @ NL)
                 (register_all h rs []) ts"
    by (intro exI [of _ ts]) simp
qed

lemma red_blue_red_text:
  "write_materials example_host (register_all example_host [1, 2, 1] []) False =
     Inr (''% Materials section '' @ NL @
          BSL @ ''definecolor{Red*1_col}{rgb}{1.0,0.0,0.0}'' @ NL @
          BSL @ ''tikzstyle{Red*1}= [Red*1_col]'' @ NL @
          BSL @ ''definecolor{Blue_col}{rgb}{0.0,0.0,1.0}'' @ NL @
          BSL @ ''tikzstyle{Blue}= [Blue_col,thick]'' @ NL)"
  by code_simp

lemma red_blue_red_table:
  "register_all example_host [1, 2, 1] [] = [(''Red*1'', 1), (''Blue'', 2)]"
  by code_simp

theorem material_table_first_seen_witness:
  "write_materials example_host (register_all example_host [1, 2, 1] []) False =
     Inr (''% Materials section '' @ NL @
          BSL @ ''definecolor{Red*1_col}{rgb}{1.0,0.0,0.0}'' @ NL @
          BSL @ ''tikzstyle{Red*1}= [Red*1_col]'' @ NL @
          BSL @ ''definecolor{Blue_col}{rgb}{0.0,0.0,1.0}'' @ NL @
          BSL @ ''tikzstyle{Blue}= [Blue_col,thick]'' @ NL) \<and>
   register_all example_host [1, 2, 1] [] = [(''Red*1'', 1), (''Blue'', 2)] \<and>
   map fst (register_all example_host [1, 2, 1] []) =
     first_seen (map (\<lambda>r. tikzify (mat_name (material_at example_host r))) [1, 2, 1]) \<and>
   distinct (map fst (register_all example_host [1, 2, 1] []))"
  using material_table_first_seen [OF red_blue_red_text]
  by (intro conjI) (rule red_blue_red_text, rule red_blue_red_table, (elim conjE, assumption)+)

section \<open>The material table across exports\<close>

text \<open>
  Claim C2: the specification has the material table reset at the start of every
  export. \<open>write_tex\<close> never resets \<open>used_materials\<close>: a first export, of a curve with
  the material \<open>Red.1\<close>, leaves the entry in the table, and a second export, of a curve
  without any material, starts from that table and writes the definition of \<open>Red.1\<close>
  into its document.
\<close>

theorem second_export_output:
  "write_tex example_host (scene_of [red_curve]) ''a.tex'' fig_flags [] =
     Inr (''File sucesfully writen'', first_export_sink, [(''Red*1'', 1)]) \<and>
   slot_materials plain_curve = [] \<and>
   write_tex example_host (scene_of [plain_curve]) ''b.tex'' fig_flags [(''Red*1'', 1)] =
     Inr (''File sucesfully writen'', second_export_sink, [(''Red*1'', 1)]) \<and>
   file_written second_export_sink =
     Some (''b.tex'',
        ''% Generated by tikz_export.py v (2, 0) '' @ NL @ NL @
        ''% Materials section '' @ NL @
        BSL @ ''definecolor{Red*1_col}{rgb}{1.0,0.0,0.0}'' @ NL @
        BSL @ ''tikzstyle{Red*1}= [Red*1_col]'' @ NL @ NL @
        BSL @ ''begin{tikzpicture}'' @ NL @
        ''% B'' @ NL @ BSL @ ''path[draw] (+0.0.4f,+0.0.4f) -- (+1.0.4f,+0.0.4f);'' @ NL @ NL @
        BSL @ ''end{tikzpicture}'' @ NL)"
  by code_simp

section \<open>Exceptions and the status of an export\<close>



























section \<open>Closed Bezier splines\<close>






























end
